theory Spec2Isabelle
  imports Main "HOL-Library.Char_ord" "HOL-Library.List_Lexorder" "HOL-Library.Multiset"
    "HOL-Library.Sublist"
begin

section \<open>Data model\<close>

text \<open>
  The script keeps three key/value stores: the per-session \<open>st.session_state\<close>, the
  persisted \<open>config.app\<close> / \<open>config.ui\<close> dictionaries and the locale table returned by
  \<open>utils.load_locales\<close>. All keys are strings. The values the script itself reads and
  writes under the keys used here are strings (text-input results, provider names,
  locale codes), so these stores are maps from strings to strings.
\<close>

type_synonym session_state = "string \<rightharpoonup> string"

type_synonym config_dict = "string \<rightharpoonup> string"

text \<open>
  A locale entry is the dictionary \<open>{"Language": name, "Translation": {key: text}}\<close>;
  either key may be absent from a resource file, which \<open>dict.get\<close> tolerates.
\<close>

record locale_entry =
  Language :: "string option"
  Translation :: "(string \<rightharpoonup> string) option"

type_synonym locale_table = "string \<rightharpoonup> locale_entry"

text \<open>
  Exceptions are values. Only subclasses of Python's \<open>Exception\<close> are represented;
  \<open>ValidationError\<close> carries the list of offending fields.
\<close>

datatype field_error = Missing string | StringType string

datatype py_exception =
    KeyError string
  | TypeError
  | ValueError
  | OSError
  | ValidationError "field_error list"

section \<open>Session state initialisation (lines 65-72)\<close>

text \<open>\<open>d.get(k, default)\<close> of a Python dictionary.\<close>

definition dict_get :: "('k \<rightharpoonup> 'v) \<Rightarrow> 'k \<Rightarrow> 'v \<Rightarrow> 'v" where
  "dict_get d k dflt = (case d k of None \<Rightarrow> dflt | Some v \<Rightarrow> v)"

text \<open>\<open>if k not in st.session_state: st.session_state[k] = v\<close>\<close>

definition set_if_absent :: "string \<Rightarrow> string \<Rightarrow> session_state \<Rightarrow> session_state" where
  "set_if_absent k v ss = (if ss k = None then ss(k \<mapsto> v) else ss)"

definition init_session_state :: "config_dict \<Rightarrow> string \<Rightarrow> session_state \<Rightarrow> session_state" where
  "init_session_state config_ui system_locale ss =
     set_if_absent ''ui_language'' (dict_get config_ui ''language'' system_locale)
       (set_if_absent ''video_terms'' ''''
         (set_if_absent ''video_script'' ''''
           (set_if_absent ''video_subject'' '''' ss)))"

section \<open>Translation lookup (lines 156-158)\<close>

text \<open>The empty dictionary \<open>{}\<close> used as the default of \<open>locales.get\<close>.\<close>

definition empty_locale :: locale_entry where
  "empty_locale = \<lparr>Language = None, Translation = None\<rparr>"

text \<open>
  \<open>st.session_state["ui_language"]\<close> is a subscript, so it raises \<open>KeyError\<close> when the
  key is absent; the two \<open>get\<close> calls never raise.
\<close>

definition tr :: "locale_table \<Rightarrow> session_state \<Rightarrow> string \<Rightarrow> py_exception + string" where
  "tr locales ss key =
     (case ss ''ui_language'' of
        None \<Rightarrow> Inl (KeyError ''ui_language'')
      | Some lang \<Rightarrow>
          (let loc = dict_get locales lang empty_locale;
               translation = (case Translation loc of None \<Rightarrow> Map.empty | Some t \<Rightarrow> t)
           in Inr (dict_get translation key key)))"

section \<open>Asset scanner (lines 75-82)\<close>

text \<open>
  A directory listing is the list of its entries in the order the operating system
  reports them; a sub-directory carries its own listing.
\<close>

datatype fs_entry = File string | Dir string "fs_entry list"

fun entry_name :: "fs_entry \<Rightarrow> string" where
  "entry_name (File n) = n"
| "entry_name (Dir n _) = n"

fun is_dir :: "fs_entry \<Rightarrow> bool" where
  "is_dir (File _) = False"
| "is_dir (Dir _ _) = True"

text \<open>
  \<open>os.walk(top)\<close>, top-down: one triple \<open>(root, dirs, files)\<close> for the directory
  itself, followed by the walks of its sub-directories in listing order.
\<close>

fun walk :: "string \<Rightarrow> fs_entry list \<Rightarrow> (string \<times> string list \<times> string list) list"
  and walk_subdirs :: "string \<Rightarrow> fs_entry list \<Rightarrow> (string \<times> string list \<times> string list) list"
where
  "walk dirpath es =
     (dirpath, map entry_name (filter is_dir es), map entry_name (filter (\<lambda>e. \<not> is_dir e) es))
       # walk_subdirs dirpath es"
| "walk_subdirs dirpath [] = []"
| "walk_subdirs dirpath (File _ # es) = walk_subdirs dirpath es"
| "walk_subdirs dirpath (Dir n sub # es) = walk (dirpath @ ''/'' @ n) sub @ walk_subdirs dirpath es"

text \<open>
  \<open>os.walk\<close> of a directory that does not exist yields nothing (its \<open>onerror\<close> is
  unset); \<open>None\<close> stands for the missing directory.
\<close>

definition os_walk :: "string \<Rightarrow> fs_entry list option \<Rightarrow> (string \<times> string list \<times> string list) list" where
  "os_walk dirpath d = (case d of None \<Rightarrow> [] | Some es \<Rightarrow> walk dirpath es)"

text \<open>\<open>s.endswith(suf)\<close>\<close>

definition endswith :: "string \<Rightarrow> string \<Rightarrow> bool" where
  "endswith s suf = (length suf \<le> length s \<and> drop (length s - length suf) s = suf)"

text \<open>The inner loop \<open>for file in files\<close> and the outer loop over the walk.\<close>

fun fonts_of_files :: "string list \<Rightarrow> string list \<Rightarrow> string list" where
  "fonts_of_files fonts [] = fonts"
| "fonts_of_files fonts (file # files) =
     fonts_of_files
       (if endswith file ''.ttf'' \<or> endswith file ''.ttc'' then fonts @ [file] else fonts) files"

fun fonts_of_walk :: "string list \<Rightarrow> (string \<times> string list \<times> string list) list \<Rightarrow> string list" where
  "fonts_of_walk fonts [] = fonts"
| "fonts_of_walk fonts ((root, dirs, files) # rest) = fonts_of_walk (fonts_of_files fonts files) rest"

text \<open>
  \<open>fonts.sort()\<close> orders strings lexicographically by character code, which is the
  order of \<open>string\<close> here.
\<close>

definition get_all_fonts :: "string \<Rightarrow> fs_entry list option \<Rightarrow> string list" where
  "get_all_fonts font_dir d = sort (fonts_of_walk [] (os_walk font_dir d))"

text \<open>
  Independent description of the files below a directory, at any depth, used to state
  what the scanner returns.
\<close>

fun files_below :: "fs_entry list \<Rightarrow> string list" where
  "files_below [] = []"
| "files_below (File n # es) = n # files_below es"
| "files_below (Dir n sub # es) = files_below sub @ files_below es"

section \<open>Opening a task folder (lines 94-104)\<close>

text \<open>
  What the function asks of the host: \<open>platform.system()\<close>, \<open>os.path.join\<close>,
  \<open>os.path.exists\<close> and \<open>os.system\<close>. Each call either returns or raises.
\<close>

record host =
  platform_system :: "py_exception + string"
  path_join :: "string list \<Rightarrow> py_exception + string"
  path_exists :: "string \<Rightarrow> py_exception + bool"
  os_system :: "string \<Rightarrow> py_exception + int"

text \<open>
  What the script does to the outside world, in order. The help texts of the settings
  panel are long literals; each is named by a tag, and \<open>NoTips\<close> is the empty string.
\<close>

datatype tips = NoTips | OllamaTips | OpenAITips | AzureTips | MoonshotTips

datatype event =
    OsSystem string
  | LoggerError string py_exception
  | ConfigSave
  | StMarkdown tips
  | StSuccess string

text \<open>
  \<open>if cond: os.system(cmd)\<close>: the call made, and the exception if the call raised.
\<close>

definition system_if :: "host \<Rightarrow> bool \<Rightarrow> string \<Rightarrow> event list \<times> py_exception option" where
  "system_if h cond cmd =
     (if cond then
        (case os_system h cmd of
           Inl e \<Rightarrow> ([OsSystem cmd], Some e)
         | Inr _ \<Rightarrow> ([OsSystem cmd], None))
      else ([], None))"

text \<open>
  The body of the \<open>try\<close> block: the commands issued, and the exception that ended it,
  if any. The two \<open>if\<close> statements on the system name run one after the other.
\<close>

definition open_task_folder_body :: "host \<Rightarrow> string \<Rightarrow> string \<Rightarrow> event list \<times> py_exception option" where
  "open_task_folder_body h root_dir task_id =
     (case platform_system h of
        Inl e \<Rightarrow> ([], Some e)
      | Inr sys \<Rightarrow>
     (case path_join h [root_dir, ''storage'', ''tasks'', task_id] of
        Inl e \<Rightarrow> ([], Some e)
      | Inr path \<Rightarrow>
     (case path_exists h path of
        Inl e \<Rightarrow> ([], Some e)
      | Inr ex \<Rightarrow>
          if ex then
            (case system_if h (sys = ''Windows'') (''start '' @ path) of
               (evs, Some e) \<Rightarrow> (evs, Some e)
             | (evs, None) \<Rightarrow>
                 (case system_if h (sys = ''Darwin'') (''open '' @ path) of
                    (evs', r) \<Rightarrow> (evs @ evs', r)))
          else ([], None))))"

text \<open>
  \<open>except Exception as e: logger.error(e)\<close>. The result is a sum so that an exception
  leaving the function would be visible as \<open>Inl\<close>.
\<close>

definition open_task_folder :: "host \<Rightarrow> string \<Rightarrow> string \<Rightarrow> py_exception + event list" where
  "open_task_folder h root_dir task_id =
     (case open_task_folder_body h root_dir task_id of
        (evs, Some e) \<Rightarrow> Inr (evs @ [LoggerError [] e])
      | (evs, None) \<Rightarrow> Inr evs)"

section \<open>LLM provider settings (lines 192-308)\<close>

text \<open>
  \<open>str.lower()\<close> on the ASCII letters; the provider names are ASCII, and other
  characters are left as they are.
\<close>

definition lower_char :: "char \<Rightarrow> char" where
  "lower_char c =
     (if CHR ''A'' \<le> c \<and> c \<le> CHR ''Z'' then char_of (of_char c + (32::nat)) else c)"

definition lower :: "string \<Rightarrow> string" where
  "lower s = map lower_char s"

definition llm_providers :: "string list" where
  "llm_providers =
     [''OpenAI'', ''Moonshot'', ''Azure'', ''Qwen'', ''DeepSeek'', ''Gemini'', ''Ollama'',
      ''G4f'', ''OneAPI'', ''Cloudflare'', ''ERNIE'']"

text \<open>
  The loop \<open>for i, provider in enumerate(llm_providers)\<close> with its \<open>break\<close>; the last
  argument is the value \<open>saved_llm_provider_index\<close> holds when the loop starts.
\<close>

fun provider_loop :: "string \<Rightarrow> (nat \<times> string) list \<Rightarrow> nat \<Rightarrow> nat" where
  "provider_loop saved [] idx = idx"
| "provider_loop saved ((i, provider) # rest) idx =
     (if lower provider = saved then i else provider_loop saved rest idx)"

definition saved_llm_provider_index :: "config_dict \<Rightarrow> nat" where
  "saved_llm_provider_index app =
     provider_loop (lower (dict_get app ''llm_provider'' ''OpenAI'')) (enumerate 0 llm_providers) 0"

text \<open>
  The widgets. A select box returns the option the user picked, or the one at \<open>index\<close>
  when the user has not touched it; it cannot return anything outside its options. A
  text input returns what the user typed, or its \<open>value\<close> argument.
\<close>

definition selectbox :: "string list \<Rightarrow> nat \<Rightarrow> nat option \<Rightarrow> string" where
  "selectbox options index choice =
     (case choice of
        None \<Rightarrow> options ! index
      | Some j \<Rightarrow> if j < length options then options ! j else options ! index)"

definition text_input :: "string \<Rightarrow> string option \<Rightarrow> string" where
  "text_input val typed = (case typed of None \<Rightarrow> val | Some s \<Rightarrow> s)"

record credentials =
  llm_api_key :: string
  llm_secret_key :: string
  llm_base_url :: string
  llm_model_name :: string
  llm_account_id :: string

text \<open>What the user does during one run of the script.\<close>

record interaction =
  provider_choice :: "nat option"
  typed_api_key :: "string option"
  typed_secret_key :: "string option"
  typed_base_url :: "string option"
  typed_model_name :: "string option"
  typed_account_id :: "string option"
  save_pressed :: bool

text \<open>The key \<open>f"{llm_provider}_api_key"\<close> and its siblings.\<close>

definition provider_key :: "string \<Rightarrow> string \<Rightarrow> string" where
  "provider_key llm_provider field = llm_provider @ ''_'' @ field"

text \<open>Lines 222-228: the five reads from the config store.\<close>

definition read_credentials :: "config_dict \<Rightarrow> string \<Rightarrow> credentials" where
  "read_credentials app llm_provider =
     \<lparr>llm_api_key = dict_get app (provider_key llm_provider ''api_key'') '''',
      llm_secret_key = dict_get app (provider_key llm_provider ''secret_key'') '''',
      llm_base_url = dict_get app (provider_key llm_provider ''base_url'') '''',
      llm_model_name = dict_get app (provider_key llm_provider ''model_name'') '''',
      llm_account_id = dict_get app (provider_key llm_provider ''account_id'') ''''\<rparr>"

text \<open>
  Lines 230-280: four \<open>if llm_provider == ...\<close> blocks, run one after the other on the
  local variables and \<open>tips\<close>. \<open>not s\<close> on a string holds exactly for the empty string.
\<close>

definition ollama_block :: "string \<Rightarrow> credentials \<times> tips \<Rightarrow> credentials \<times> tips" where
  "ollama_block llm_provider ct =
     (case ct of (c, t) \<Rightarrow>
        if llm_provider = ''ollama'' then
          (let c1 = (if llm_model_name c = [] then c\<lparr>llm_model_name := ''qwen:7b''\<rparr> else c);
               c2 = (if llm_base_url c1 = [] then c1\<lparr>llm_base_url := ''http://localhost:11434/v1''\<rparr> else c1)
           in (c2, OllamaTips))
        else (c, t))"

definition openai_block :: "config_dict \<Rightarrow> string \<Rightarrow> credentials \<times> tips \<Rightarrow> credentials \<times> tips" where
  "openai_block app llm_provider ct =
     (case ct of (c, t) \<Rightarrow>
        if llm_provider = ''openai'' then
          (let c1 = (if llm_api_key c = [] then c\<lparr>llm_api_key := dict_get app ''openai_api_key'' ''''\<rparr> else c)
           in (c1, OpenAITips))
        else (c, t))"

definition azure_block :: "config_dict \<Rightarrow> string \<Rightarrow> credentials \<times> tips \<Rightarrow> credentials \<times> tips" where
  "azure_block app llm_provider ct =
     (case ct of (c, t) \<Rightarrow>
        if llm_provider = ''azure'' then
          (let c1 = (if llm_api_key c = [] then c\<lparr>llm_api_key := dict_get app ''azure_api_key'' ''''\<rparr> else c);
               c2 = (if llm_base_url c1 = [] then c1\<lparr>llm_base_url := dict_get app ''azure_base_url'' ''''\<rparr> else c1);
               c3 = (if llm_model_name c2 = [] then c2\<lparr>llm_model_name := dict_get app ''azure_model_name'' ''''\<rparr> else c2)
           in (c3, AzureTips))
        else (c, t))"

definition moonshot_block :: "config_dict \<Rightarrow> string \<Rightarrow> credentials \<times> tips \<Rightarrow> credentials \<times> tips" where
  "moonshot_block app llm_provider ct =
     (case ct of (c, t) \<Rightarrow>
        if llm_provider = ''moonshot'' then
          (let c1 = (if llm_base_url c = [] then c\<lparr>llm_base_url := dict_get app ''moonshot_base_url'' ''''\<rparr> else c);
               c2 = (if llm_model_name c1 = [] then c1\<lparr>llm_model_name := dict_get app ''moonshot_model_name'' ''''\<rparr> else c1)
           in (c2, MoonshotTips))
        else (c, t))"

definition provider_defaults :: "config_dict \<Rightarrow> string \<Rightarrow> credentials \<Rightarrow> credentials \<times> tips" where
  "provider_defaults app llm_provider c =
     moonshot_block app llm_provider
       (azure_block app llm_provider
         (openai_block app llm_provider
           (ollama_block llm_provider (c, NoTips))))"

text \<open>
  Lines 301-308, the body of \<open>if st.button(tr("Save"))\<close>: five assignments,
  \<open>config.save()\<close>, then the confirmation, whose text is looked up last.
\<close>

definition save_handler ::
  "locale_table \<Rightarrow> session_state \<Rightarrow> string \<Rightarrow> credentials \<Rightarrow> config_dict
     \<Rightarrow> config_dict \<times> event list \<times> py_exception option" where
  "save_handler locales ss llm_provider c app =
     (let app' = app(provider_key llm_provider ''api_key'' \<mapsto> llm_api_key c,
                     provider_key llm_provider ''secret_key'' \<mapsto> llm_secret_key c,
                     provider_key llm_provider ''base_url'' \<mapsto> llm_base_url c,
                     provider_key llm_provider ''model_name'' \<mapsto> llm_model_name c,
                     provider_key llm_provider ''account_id'' \<mapsto> llm_account_id c)
      in case tr locales ss ''Configuration saved!'' of
           Inl e \<Rightarrow> (app', [ConfigSave], Some e)
         | Inr msg \<Rightarrow> (app', [ConfigSave, StSuccess msg], None))"

text \<open>
  One run of the middle settings column. \<open>form_values\<close> are the values the five text
  inputs are seeded with, \<open>entered\<close> the values they return.
\<close>

record panel_result =
  app_after :: config_dict
  active_provider :: string
  form_values :: credentials
  entered :: credentials
  shown_tips :: tips
  events :: "event list"
  raised :: "py_exception option"

definition llm_panel ::
  "locale_table \<Rightarrow> session_state \<Rightarrow> interaction \<Rightarrow> config_dict \<Rightarrow> panel_result" where
  "llm_panel locales ss ui app =
     (let llm_provider =
            lower (selectbox llm_providers (saved_llm_provider_index app) (provider_choice ui));
          app1 = app(''llm_provider'' \<mapsto> llm_provider);
          ct = provider_defaults app1 llm_provider (read_credentials app1 llm_provider);
          c = fst ct;
          tips = snd ct;
          shown = (if tips \<noteq> NoTips then [StMarkdown tips] else []);
          e = \<lparr>llm_api_key = text_input (llm_api_key c) (typed_api_key ui),
               llm_secret_key = text_input (llm_secret_key c) (typed_secret_key ui),
               llm_base_url = text_input (llm_base_url c) (typed_base_url ui),
               llm_model_name = text_input (llm_model_name c) (typed_model_name ui),
               llm_account_id = text_input (llm_account_id c) (typed_account_id ui)\<rparr>
      in if save_pressed ui then
           (case save_handler locales ss llm_provider e app1 of
              (app2, evs, r) \<Rightarrow>
                \<lparr>app_after = app2, active_provider = llm_provider, form_values = c, entered = e,
                 shown_tips = tips, events = shown @ evs, raised = r\<rparr>)
         else
           \<lparr>app_after = app1, active_provider = llm_provider, form_values = c, entered = e,
            shown_tips = tips, events = shown, raised = None\<rparr>)"

text \<open>A run in which the user touches no widget of the column.\<close>

definition untouched :: interaction where
  "untouched =
     \<lparr>provider_choice = None, typed_api_key = None, typed_secret_key = None,
      typed_base_url = None, typed_model_name = None, typed_account_id = None,
      save_pressed = False\<rparr>"

section \<open>Configuration validation (lines 374-387)\<close>

text \<open>
  The keys and values a Python dictionary handed to \<open>validate_config\<close> may hold. A
  dictionary is the list of its items; its keys are pairwise different.
\<close>

datatype py_value = PyNone | PyStr string | PyInt int | PyBool bool

type_synonym py_dict = "(py_value \<times> py_value) list"

record ConfigModel =
  api_key :: string
  secret_key :: "string option"
  base_url :: "string option"
  model_name :: "string option"
  account_id :: "string option"

text \<open>
  The call \<open>ConfigModel(**config_data)\<close> first unpacks the dictionary into keyword
  arguments. Python raises \<open>TypeError\<close> there when a key is not a string, before the
  constructor runs.
\<close>

fun is_str :: "py_value \<Rightarrow> bool" where
  "is_str (PyStr _) = True"
| "is_str _ = False"

fun keyword_arguments :: "py_dict \<Rightarrow> py_exception + (string \<times> py_value) list" where
  "keyword_arguments [] = Inr []"
| "keyword_arguments ((PyStr s, v) # items) =
     (case keyword_arguments items of
        Inl e \<Rightarrow> Inl e
      | Inr kwargs \<Rightarrow> Inr ((s, v) # kwargs))"
| "keyword_arguments ((_, v) # items) = Inl TypeError"

text \<open>
  Modelled from the spec: the base class \<open>PydanticV2Model\<close> of \<open>ConfigModel\<close>, and with
  it the constructor, is imported from a library and is not part of the source. The
  spec calls it a Pydantic-style model whose validation fails on invalid input and on
  an omitted required field. The constructor below follows the field declarations of
  lines 374-379: \<open>api_key: str = Field(...)\<close> is required and takes a string; an
  \<open>Optional[str] = Field(None)\<close> field may be absent, \<open>None\<close> or a string. Keyword
  arguments that name no field are ignored, and every failing field is reported in one
  \<open>ValidationError\<close>.
\<close>

definition required_str :: "(string \<rightharpoonup> py_value) \<Rightarrow> string \<Rightarrow> field_error list + string" where
  "required_str d f =
     (case d f of
        None \<Rightarrow> Inl [Missing f]
      | Some (PyStr s) \<Rightarrow> Inr s
      | Some _ \<Rightarrow> Inl [StringType f])"

definition optional_str :: "(string \<rightharpoonup> py_value) \<Rightarrow> string \<Rightarrow> field_error list + string option" where
  "optional_str d f =
     (case d f of
        None \<Rightarrow> Inr None
      | Some PyNone \<Rightarrow> Inr None
      | Some (PyStr s) \<Rightarrow> Inr (Some s)
      | Some _ \<Rightarrow> Inl [StringType f])"

definition errors_of :: "field_error list + 'a \<Rightarrow> field_error list" where
  "errors_of r = (case r of Inl es \<Rightarrow> es | Inr _ \<Rightarrow> [])"

definition ConfigModel_init :: "(string \<rightharpoonup> py_value) \<Rightarrow> py_exception + ConfigModel" where
  "ConfigModel_init d =
     (let a = required_str d ''api_key'';
          s = optional_str d ''secret_key'';
          b = optional_str d ''base_url'';
          m = optional_str d ''model_name'';
          c = optional_str d ''account_id''
      in case (a, s, b, m, c) of
           (Inr a', Inr s', Inr b', Inr m', Inr c') \<Rightarrow>
             Inr \<lparr>api_key = a', secret_key = s', base_url = b', model_name = m', account_id = c'\<rparr>
         | _ \<Rightarrow>
             Inl (ValidationError (errors_of a @ errors_of s @ errors_of b @ errors_of m @ errors_of c)))"

text \<open>
  \<open>validate_config\<close>: only \<open>ValidationError\<close> is caught. The result is the returned
  model (\<open>None\<close> for Python's \<open>None\<close>) with what was logged, or the exception that
  leaves the function.
\<close>

definition validate_config ::
  "py_dict \<Rightarrow> py_exception + (ConfigModel option \<times> event list)" where
  "validate_config config_data =
     (case keyword_arguments config_data of
        Inl e \<Rightarrow> Inl e
      | Inr kwargs \<Rightarrow>
     (case ConfigModel_init (map_of kwargs) of
        Inr config_model \<Rightarrow> Inr (Some config_model, [])
      | Inl (ValidationError es) \<Rightarrow>
          Inr (None, [LoggerError ''Configuration validation error: '' (ValidationError es)])
      | Inl e \<Rightarrow> Inl e))"

section \<open>Properties\<close>

subsection \<open>Session state defaults\<close>

text \<open>
  Claim C8. In a fresh session (no key set) the initialisation block leaves
  \<open>video_subject\<close>, \<open>video_script\<close> and \<open>video_terms\<close> equal to the empty string, and a
  key that is already present in the session state keeps its value.
\<close>

theorem init_session_state_defaults:
  "init_session_state config_ui system_locale Map.empty ''video_subject'' = Some ''''
   \<and> init_session_state config_ui system_locale Map.empty ''video_script'' = Some ''''
   \<and> init_session_state config_ui system_locale Map.empty ''video_terms'' = Some ''''
   \<and> (\<forall>k v. ss k = Some v \<longrightarrow> init_session_state config_ui system_locale ss k = Some v)"
  by (simp add: init_session_state_def set_if_absent_def)

theorem init_session_state_defaults_witness:
  "[''video_script'' \<mapsto> ''hello''] ''video_script'' = Some ''hello''
   \<and> init_session_state Map.empty ''en-US'' [''video_script'' \<mapsto> ''hello''] ''video_script'' = Some ''hello''
   \<and> init_session_state Map.empty ''en-US'' Map.empty ''video_script'' = Some ''''"
  using init_session_state_defaults [of Map.empty "''en-US''" "[''video_script'' \<mapsto> ''hello'']"]
  by simp

subsection \<open>Translation lookup\<close>

text \<open>
  Claim C4. When the active language is a locale code of the locale table, \<open>tr\<close> returns
  the translated text for a key of that locale's translation table and the key itself
  for a key that is not in it (also when the locale has no translation table at all).
\<close>

theorem tr_present_locale:
  assumes "ss ''ui_language'' = Some code" and "locales code = Some loc"
  shows "(Translation loc = Some t \<and> t key = Some text \<longrightarrow> tr locales ss key = Inr text)
       \<and> (Translation loc = Some t \<and> t key = None \<longrightarrow> tr locales ss key = Inr key)
       \<and> (Translation loc = None \<longrightarrow> tr locales ss key = Inr key)"
  using assms by (simp add: tr_def dict_get_def)

theorem tr_present_locale_witness:
  "tr [''de-DE'' \<mapsto> \<lparr>Language = Some ''Deutsch'', Translation = Some [''Save'' \<mapsto> ''Speichern'']\<rparr>]
      [''ui_language'' \<mapsto> ''de-DE''] ''Save'' = Inr ''Speichern''
   \<and> tr [''de-DE'' \<mapsto> \<lparr>Language = Some ''Deutsch'', Translation = Some [''Save'' \<mapsto> ''Speichern'']\<rparr>]
      [''ui_language'' \<mapsto> ''de-DE''] ''Cancel'' = Inr ''Cancel''"
  using tr_present_locale [of "[''ui_language'' \<mapsto> ''de-DE'']" "''de-DE''"
      "[''de-DE'' \<mapsto> \<lparr>Language = Some ''Deutsch'', Translation = Some [''Save'' \<mapsto> ''Speichern'']\<rparr>]"
      "\<lparr>Language = Some ''Deutsch'', Translation = Some [''Save'' \<mapsto> ''Speichern'']\<rparr>"
      "[''Save'' \<mapsto> ''Speichern'']" "''Save''" "''Speichern''"]
    tr_present_locale [of "[''ui_language'' \<mapsto> ''de-DE'']" "''de-DE''"
      "[''de-DE'' \<mapsto> \<lparr>Language = Some ''Deutsch'', Translation = Some [''Save'' \<mapsto> ''Speichern'']\<rparr>]"
      "\<lparr>Language = Some ''Deutsch'', Translation = Some [''Save'' \<mapsto> ''Speichern'']\<rparr>"
      "[''Save'' \<mapsto> ''Speichern'']" "''Cancel''"]
  by simp

text \<open>
  Claim C10. When the active language is not a locale code of the locale table, \<open>tr\<close>
  returns the key unchanged and raises nothing.
\<close>

theorem tr_unknown_locale:
  "ss ''ui_language'' = Some code \<Longrightarrow> locales code = None \<Longrightarrow> tr locales ss key = Inr key"
  by (simp add: tr_def dict_get_def empty_locale_def)

theorem tr_unknown_locale_witness:
  "tr [''de-DE'' \<mapsto> \<lparr>Language = Some ''Deutsch'', Translation = Some [''Save'' \<mapsto> ''Speichern'']\<rparr>]
      [''ui_language'' \<mapsto> ''xx-XX''] ''Save'' = Inr ''Save''"
  using tr_unknown_locale [of "[''ui_language'' \<mapsto> ''xx-XX'']" "''xx-XX''"
      "[''de-DE'' \<mapsto> \<lparr>Language = Some ''Deutsch'', Translation = Some [''Save'' \<mapsto> ''Speichern'']\<rparr>]" "''Save''"]
  by simp

subsection \<open>Provider selection\<close>

lemma lower_providers:
  "map lower llm_providers =
     [''openai'', ''moonshot'', ''azure'', ''qwen'', ''deepseek'', ''gemini'', ''ollama'',
      ''g4f'', ''oneapi'', ''cloudflare'', ''ernie'']"
  by code_simp

lemma provider_loop_no_match:
  "saved \<notin> set (map (lower \<circ> snd) ps) \<Longrightarrow> provider_loop saved ps idx = idx"
  by (induction ps) auto

lemma map_snd_enumerate: "map snd (enumerate n xs) = xs"
  by (induction xs arbitrary: n) auto

lemma lower_OpenAI: "lower ''OpenAI'' = ''openai''"
  by code_simp

lemma hd_providers: "llm_providers ! 0 = ''OpenAI''"
  by (simp add: llm_providers_def)


lemma provider_loop_range:
  "provider_loop saved ps idx = idx \<or> provider_loop saved ps idx \<in> fst ` set ps"
  by (induction ps) (auto simp: rev_image_eqI)

lemma saved_llm_provider_index_lt: "saved_llm_provider_index app < length llm_providers"
proof -
  have "fst ` set (enumerate 0 llm_providers) = {0..<length llm_providers}"
    by (simp flip: set_map)
  moreover have "0 < length llm_providers"
    by (simp add: llm_providers_def)
  ultimately show ?thesis
    using provider_loop_range [of "lower (dict_get app ''llm_provider'' ''OpenAI'')"
        "enumerate 0 llm_providers" 0]
    unfolding saved_llm_provider_index_def by auto
qed

lemma selectbox_in_options: "index < length options \<Longrightarrow> selectbox options index choice \<in> set options"
  by (simp add: selectbox_def split: option.split)

lemma active_provider_llm_panel:
  "active_provider (llm_panel locales ss ui app) =
     lower (selectbox llm_providers (saved_llm_provider_index app) (provider_choice ui))"
  by (simp add: llm_panel_def Let_def split: prod.split)

lemma active_provider_enumerated:
  "active_provider (llm_panel locales ss ui app) \<in> set (map lower llm_providers)"
  using selectbox_in_options [OF saved_llm_provider_index_lt, of app "provider_choice ui"]
  by (simp add: active_provider_llm_panel)

lemma provider_key_not_llm_provider:
  "p \<in> set (map lower llm_providers) \<Longrightarrow> provider_key p field \<noteq> ''llm_provider''"
  unfolding lower_providers by (auto simp: provider_key_def)

lemma fst_save_handler:
  "fst (save_handler locales ss p c app) =
     app(provider_key p ''api_key'' \<mapsto> llm_api_key c,
         provider_key p ''secret_key'' \<mapsto> llm_secret_key c,
         provider_key p ''base_url'' \<mapsto> llm_base_url c,
         provider_key p ''model_name'' \<mapsto> llm_model_name c,
         provider_key p ''account_id'' \<mapsto> llm_account_id c)"
  by (simp add: save_handler_def Let_def split: sum.split)

lemma app_after_llm_panel:
  "app_after (llm_panel locales ss ui app) =
     (if save_pressed ui
      then fst (save_handler locales ss (active_provider (llm_panel locales ss ui app))
                  (entered (llm_panel locales ss ui app))
                  (app(''llm_provider'' \<mapsto> active_provider (llm_panel locales ss ui app))))
      else app(''llm_provider'' \<mapsto> active_provider (llm_panel locales ss ui app)))"
  by (simp add: llm_panel_def Let_def split: prod.split)

lemma app_after_llm_provider:
  "app_after (llm_panel locales ss ui app) ''llm_provider'' =
     Some (active_provider (llm_panel locales ss ui app))"
proof -
  have "''llm_provider'' \<noteq> provider_key (active_provider (llm_panel locales ss ui app)) field" for field
    using provider_key_not_llm_provider [OF active_provider_enumerated, of locales ss ui app field]
    by simp
  then show ?thesis
    by (simp add: app_after_llm_panel fst_save_handler)
qed

text \<open>
  Claim C9. When the saved \<open>llm_provider\<close>, lower-cased, equals the lower-cased name of
  none of the eleven enumerated providers, the selector's index is 0: the select box
  shows \<open>OpenAI\<close>, and unless the user picks another entry \<open>openai\<close> becomes the active
  provider and is written back to the config store.
\<close>

theorem unknown_provider_selects_openai:
  assumes "\<forall>provider \<in> set llm_providers. lower provider \<noteq> lower (dict_get app ''llm_provider'' ''OpenAI'')"
  shows "saved_llm_provider_index app = 0
       \<and> selectbox llm_providers (saved_llm_provider_index app) None = ''OpenAI''
       \<and> (provider_choice ui = None \<longrightarrow>
            active_provider (llm_panel locales ss ui app) = ''openai''
            \<and> app_after (llm_panel locales ss ui app) ''llm_provider'' = Some ''openai'')"
proof -
  have "lower (dict_get app ''llm_provider'' ''OpenAI'')
          \<notin> set (map (lower \<circ> snd) (enumerate 0 llm_providers))"
    using assms by (auto simp flip: map_map simp: map_snd_enumerate)
  then have idx: "saved_llm_provider_index app = 0"
    unfolding saved_llm_provider_index_def by (rule provider_loop_no_match)
  have sel: "selectbox llm_providers 0 None = ''OpenAI''"
    by (simp add: selectbox_def hd_providers)
  have "active_provider (llm_panel locales ss ui app) = ''openai''" if "provider_choice ui = None"
    using that by (simp add: active_provider_llm_panel idx sel lower_OpenAI)
  then show ?thesis
    by (simp add: idx sel app_after_llm_provider)
qed

theorem unknown_provider_selects_openai_witness:
  "saved_llm_provider_index [''llm_provider'' \<mapsto> ''Claude''] = 0
   \<and> active_provider (llm_panel Map.empty Map.empty
        \<lparr>provider_choice = None, typed_api_key = None, typed_secret_key = None,
         typed_base_url = None, typed_model_name = None, typed_account_id = None,
         save_pressed = False\<rparr> [''llm_provider'' \<mapsto> ''Claude'']) = ''openai''"
proof -
  have low: "lower ''Claude'' = ''claude''"
    by code_simp
  have "''claude'' \<notin> set (map lower llm_providers)"
    unfolding lower_providers by simp
  then have "\<forall>provider \<in> set llm_providers.
      lower provider \<noteq> lower (dict_get [''llm_provider'' \<mapsto> ''Claude''] ''llm_provider'' ''OpenAI'')"
    by (force simp: dict_get_def low)
  from unknown_provider_selects_openai [OF this] show ?thesis
    by simp
qed

subsection \<open>Saving credentials\<close>

lemma provider_key_eq_iff [simp]: "provider_key p f = provider_key p g \<longleftrightarrow> f = g"
  by (simp add: provider_key_def)

lemma config_save_in_save_handler:
  "ConfigSave \<in> set (fst (snd (save_handler locales ss p c app)))"
  by (simp add: save_handler_def Let_def split: sum.split)

lemma events_llm_panel:
  "events (llm_panel locales ss ui app) =
     (if shown_tips (llm_panel locales ss ui app) \<noteq> NoTips
      then [StMarkdown (shown_tips (llm_panel locales ss ui app))] else [])
     @ (if save_pressed ui
        then fst (snd (save_handler locales ss (active_provider (llm_panel locales ss ui app))
                  (entered (llm_panel locales ss ui app))
                  (app(''llm_provider'' \<mapsto> active_provider (llm_panel locales ss ui app)))))
        else [])"
  by (simp add: llm_panel_def Let_def split: prod.split)

text \<open>
  Claim C3. The Save handler stores the five entered values under the keys
  \<open>{provider}_api_key\<close>, \<open>{provider}_secret_key\<close>, \<open>{provider}_base_url\<close>,
  \<open>{provider}_model_name\<close> and \<open>{provider}_account_id\<close> of the active provider, calls
  \<open>config.save()\<close>, and leaves every other key of the config store as it was. In a run
  of the panel the handler runs exactly when Save is pressed, with the active provider
  and the values the text inputs returned.
\<close>

theorem save_writes_active_provider_keys:
  "fst (save_handler locales ss p c app) (provider_key p ''api_key'') = Some (llm_api_key c)
   \<and> fst (save_handler locales ss p c app) (provider_key p ''secret_key'') = Some (llm_secret_key c)
   \<and> fst (save_handler locales ss p c app) (provider_key p ''base_url'') = Some (llm_base_url c)
   \<and> fst (save_handler locales ss p c app) (provider_key p ''model_name'') = Some (llm_model_name c)
   \<and> fst (save_handler locales ss p c app) (provider_key p ''account_id'') = Some (llm_account_id c)
   \<and> (\<forall>k. k \<notin> {provider_key p ''api_key'', provider_key p ''secret_key'',
               provider_key p ''base_url'', provider_key p ''model_name'',
               provider_key p ''account_id''}
          \<longrightarrow> fst (save_handler locales ss p c app) k = app k)
   \<and> ConfigSave \<in> set (fst (snd (save_handler locales ss p c app)))
   \<and> (save_pressed ui \<longrightarrow>
         app_after (llm_panel locales ss ui app) =
           fst (save_handler locales ss (active_provider (llm_panel locales ss ui app))
                  (entered (llm_panel locales ss ui app))
                  (app(''llm_provider'' \<mapsto> active_provider (llm_panel locales ss ui app))))
         \<and> ConfigSave \<in> set (events (llm_panel locales ss ui app)))
   \<and> (\<not> save_pressed ui \<longrightarrow>
         app_after (llm_panel locales ss ui app) =
           app(''llm_provider'' \<mapsto> active_provider (llm_panel locales ss ui app))
         \<and> ConfigSave \<notin> set (events (llm_panel locales ss ui app)))"
  by (simp add: fst_save_handler config_save_in_save_handler app_after_llm_panel events_llm_panel)

theorem save_writes_active_provider_keys_witness:
  "fst (save_handler Map.empty [''ui_language'' \<mapsto> ''en-US''] ''openai''
         \<lparr>llm_api_key = ''sk-1'', llm_secret_key = '''', llm_base_url = ''https://api'',
          llm_model_name = ''gpt'', llm_account_id = ''''\<rparr>
         [''azure_api_key'' \<mapsto> ''az-7'']) ''azure_api_key'' = Some ''az-7''
   \<and> fst (save_handler Map.empty [''ui_language'' \<mapsto> ''en-US''] ''openai''
         \<lparr>llm_api_key = ''sk-1'', llm_secret_key = '''', llm_base_url = ''https://api'',
          llm_model_name = ''gpt'', llm_account_id = ''''\<rparr>
         [''azure_api_key'' \<mapsto> ''az-7'']) ''openai_api_key'' = Some ''sk-1''
   \<and> ConfigSave \<in> set (events (llm_panel Map.empty [''ui_language'' \<mapsto> ''en-US'']
         \<lparr>provider_choice = Some 0, typed_api_key = Some ''sk-1'', typed_secret_key = None,
          typed_base_url = None, typed_model_name = None, typed_account_id = None,
          save_pressed = True\<rparr> [''azure_api_key'' \<mapsto> ''az-7'']))"
  using save_writes_active_provider_keys [of Map.empty "[''ui_language'' \<mapsto> ''en-US'']" "''openai''"
      "\<lparr>llm_api_key = ''sk-1'', llm_secret_key = '''', llm_base_url = ''https://api'',
          llm_model_name = ''gpt'', llm_account_id = ''''\<rparr>" "[''azure_api_key'' \<mapsto> ''az-7'']"
      "\<lparr>provider_choice = Some 0, typed_api_key = Some ''sk-1'', typed_secret_key = None,
          typed_base_url = None, typed_model_name = None, typed_account_id = None,
          save_pressed = True\<rparr>"]
  by (simp add: provider_key_def)

subsection \<open>Opening a task folder\<close>

text \<open>
  Claim C7. \<open>open_task_folder\<close> never passes an exception to its caller. When the host
  calls return: on \<open>Windows\<close> with an existing path it issues \<open>start\<close> on the task path,
  on \<open>Darwin\<close> it issues \<open>open\<close>, on any other system it issues nothing, and when the
  path does not exist it issues nothing. When a host call raises, the exception is
  logged and the function returns.
\<close>

theorem open_task_folder_branches:
  "(\<exists>evs. open_task_folder h root_dir task_id = Inr evs)
   \<and> (platform_system h = Inr sys
        \<and> path_join h [root_dir, ''storage'', ''tasks'', task_id] = Inr path \<longrightarrow>
         (path_exists h path = Inr False \<longrightarrow> open_task_folder h root_dir task_id = Inr [])
       \<and> (path_exists h path = Inr True \<and> sys = ''Windows''
            \<and> os_system h (''start '' @ path) = Inr rc \<longrightarrow>
              open_task_folder h root_dir task_id = Inr [OsSystem (''start '' @ path)])
       \<and> (path_exists h path = Inr True \<and> sys = ''Darwin''
            \<and> os_system h (''open '' @ path) = Inr rc \<longrightarrow>
              open_task_folder h root_dir task_id = Inr [OsSystem (''open '' @ path)])
       \<and> (path_exists h path = Inr True \<and> sys \<noteq> ''Windows'' \<and> sys \<noteq> ''Darwin'' \<longrightarrow>
              open_task_folder h root_dir task_id = Inr [])
       \<and> (path_exists h path = Inl e \<longrightarrow>
              open_task_folder h root_dir task_id = Inr [LoggerError [] e])
       \<and> (path_exists h path = Inr True \<and> sys = ''Windows''
            \<and> os_system h (''start '' @ path) = Inl e \<longrightarrow>
              open_task_folder h root_dir task_id =
                Inr [OsSystem (''start '' @ path), LoggerError [] e])
       \<and> (path_exists h path = Inr True \<and> sys = ''Darwin''
            \<and> os_system h (''open '' @ path) = Inl e \<longrightarrow>
              open_task_folder h root_dir task_id =
                Inr [OsSystem (''open '' @ path), LoggerError [] e]))
   \<and> (platform_system h = Inl e \<longrightarrow> open_task_folder h root_dir task_id = Inr [LoggerError [] e])
   \<and> (platform_system h = Inr sys
        \<and> path_join h [root_dir, ''storage'', ''tasks'', task_id] = Inl e \<longrightarrow>
          open_task_folder h root_dir task_id = Inr [LoggerError [] e])"
proof -
  have total: "\<exists>evs. open_task_folder h root_dir task_id = Inr evs"
    by (simp add: open_task_folder_def split: prod.split option.split)
  show ?thesis
    using total
    by (simp add: open_task_folder_def open_task_folder_body_def system_if_def)
qed

theorem open_task_folder_branches_witness:
  "open_task_folder
     \<lparr>platform_system = Inr ''Darwin'',
      path_join = (\<lambda>parts. Inr (concat (map (\<lambda>a. ''/'' @ a) parts))),
      path_exists = (\<lambda>p. Inr (p = ''/srv/storage/tasks/t1'')),
      os_system = (\<lambda>cmd. Inr 0)\<rparr> ''srv'' ''t1'' = Inr [OsSystem ''open /srv/storage/tasks/t1'']
   \<and> open_task_folder
     \<lparr>platform_system = Inr ''Darwin'',
      path_join = (\<lambda>parts. Inr (concat (map (\<lambda>a. ''/'' @ a) parts))),
      path_exists = (\<lambda>p. Inr (p = ''/srv/storage/tasks/t1'')),
      os_system = (\<lambda>cmd. Inr 0)\<rparr> ''srv'' ''t2'' = Inr []"
  using open_task_folder_branches [where h = "\<lparr>platform_system = Inr ''Darwin'',
      path_join = (\<lambda>parts. Inr (concat (map (\<lambda>a. ''/'' @ a) parts))),
      path_exists = (\<lambda>p. Inr (p = ''/srv/storage/tasks/t1'')),
      os_system = (\<lambda>cmd. Inr 0)\<rparr>" and root_dir = "''srv''" and task_id = "''t1''"
      and sys = "''Darwin''" and path = "''/srv/storage/tasks/t1''" and rc = 0]
    open_task_folder_branches [where h = "\<lparr>platform_system = Inr ''Darwin'',
      path_join = (\<lambda>parts. Inr (concat (map (\<lambda>a. ''/'' @ a) parts))),
      path_exists = (\<lambda>p. Inr (p = ''/srv/storage/tasks/t1'')),
      os_system = (\<lambda>cmd. Inr 0)\<rparr>" and root_dir = "''srv''" and task_id = "''t2''"
      and sys = "''Darwin''" and path = "''/srv/storage/tasks/t2''"]
  by simp

subsection \<open>Asset scanner\<close>

lemma endswith_suffix: "endswith s suf \<longleftrightarrow> suffix suf s"
proof
  assume "endswith s suf"
  then have "s = take (length s - length suf) s @ suf"
    by (metis append_take_drop_id endswith_def)
  then show "suffix suf s"
    by (rule suffixI)
next
  assume "suffix suf s"
  then obtain p where "s = p @ suf"
    by (auto simp: suffix_def)
  then show "endswith s suf"
    by (simp add: endswith_def)
qed

lemma fonts_of_files_filter:
  "fonts_of_files fonts files =
     fonts @ filter (\<lambda>f. suffix ''.ttf'' f \<or> suffix ''.ttc'' f) files"
  by (induction files arbitrary: fonts) (simp_all add: endswith_suffix)

lemma fonts_of_walk_filter:
  "fonts_of_walk fonts w =
     fonts @ filter (\<lambda>f. suffix ''.ttf'' f \<or> suffix ''.ttc'' f) (concat (map (\<lambda>t. snd (snd t)) w))"
  by (induction fonts w rule: fonts_of_walk.induct) (simp_all add: fonts_of_files_filter)

lemma mset_walk_subdirs_files:
  "mset (map entry_name (filter (\<lambda>e. \<not> is_dir e) es))
     + mset (concat (map (\<lambda>t. snd (snd t)) (walk_subdirs d es))) = mset (files_below es)"
  "mset (map entry_name (filter (\<lambda>e. \<not> is_dir e) es))
     + mset (concat (map (\<lambda>t. snd (snd t)) (walk_subdirs d es))) = mset (files_below es)"
proof (induction d es and d es rule: walk_walk_subdirs.induct)
  case (1 dirpath es)
  then show ?case by simp
next
  case (2 dirpath)
  show ?case by simp
next
  case (3 dirpath n es)
  then show ?case by simp
next
  case (4 dirpath n sub es)
  let ?f = "\<lambda>t::string \<times> string list \<times> string list. snd (snd t)"
  let ?top = "\<lambda>es. mset (map entry_name (filter (\<lambda>e. \<not> is_dir e) es))"
  let ?below = "\<lambda>d es. mset (concat (map ?f (walk_subdirs d es)))"
  have "?top (Dir n sub # es) + ?below dirpath (Dir n sub # es)
      = (?top sub + ?below (dirpath @ ''/'' @ n) sub) + (?top es + ?below dirpath es)"
    by (simp add: ac_simps)
  also have "\<dots> = mset (files_below sub) + mset (files_below es)"
    using "4.IH" by simp
  finally show ?case by simp
qed

lemma mset_walk_files:
  "mset (concat (map (\<lambda>t. snd (snd t)) (walk d es))) = mset (files_below es)"
  using mset_walk_subdirs_files(1) [of es d] by simp

text \<open>
  Claim C5. \<open>get_all_fonts\<close> returns, in ascending order, exactly the names (with
  multiplicity, and without any path) of the files below the font directory whose names
  end in \<open>.ttf\<close> or \<open>.ttc\<close>; for a missing directory it returns the empty list; for the
  files \<open>b.ttf\<close>, \<open>a.ttc\<close>, \<open>x.txt\<close> it returns \<open>["a.ttc", "b.ttf"]\<close>.
\<close>

theorem get_all_fonts_sorted_font_names:
  "sorted (get_all_fonts font_dir d)
   \<and> mset (get_all_fonts font_dir (Some es)) =
       mset (filter (\<lambda>f. suffix ''.ttf'' f \<or> suffix ''.ttc'' f) (files_below es))
   \<and> get_all_fonts font_dir None = []
   \<and> get_all_fonts font_dir (Some [File ''b.ttf'', File ''a.ttc'', File ''x.txt''])
       = [''a.ttc'', ''b.ttf'']"
proof -
  have "get_all_fonts font_dir (Some [File ''b.ttf'', File ''a.ttc'', File ''x.txt''])
       = [''a.ttc'', ''b.ttf'']"
    by (simp add: get_all_fonts_def os_walk_def endswith_def)
  moreover have "mset (get_all_fonts font_dir (Some es)) =
       mset (filter (\<lambda>f. suffix ''.ttf'' f \<or> suffix ''.ttc'' f) (files_below es))"
    by (simp add: get_all_fonts_def os_walk_def fonts_of_walk_filter mset_walk_files
        del: walk.simps)
  ultimately show ?thesis
    by (simp add: get_all_fonts_def os_walk_def)
qed

theorem get_all_fonts_sorted_font_names_witness:
  "sorted (get_all_fonts ''fonts''
      (Some [File ''b.ttf'', Dir ''extra'' [File ''a.ttc'', File ''notes.md''], File ''x.txt'']))
   \<and> mset (get_all_fonts ''fonts''
      (Some [File ''b.ttf'', Dir ''extra'' [File ''a.ttc'', File ''notes.md''], File ''x.txt'']))
      = {#''b.ttf'', ''a.ttc''#}"
  using get_all_fonts_sorted_font_names [of "''fonts''"
      "Some [File ''b.ttf'', Dir ''extra'' [File ''a.ttc'', File ''notes.md''], File ''x.txt'']"
      "[File ''b.ttf'', Dir ''extra'' [File ''a.ttc'', File ''notes.md''], File ''x.txt'']"]
  by (simp add: suffix_def)

subsection \<open>Provider defaults and help texts\<close>

lemma length_providers: "length llm_providers = 11"
  by (simp add: llm_providers_def)

lemma active_provider_choice:
  "provider_choice ui = Some i \<Longrightarrow> i < 11 \<Longrightarrow>
     active_provider (llm_panel locales ss ui app) = map lower llm_providers ! i"
  by (simp add: active_provider_llm_panel selectbox_def length_providers)

lemma form_values_llm_panel:
  "form_values (llm_panel locales ss ui app) =
     fst (provider_defaults (app(''llm_provider'' \<mapsto> active_provider (llm_panel locales ss ui app)))
            (active_provider (llm_panel locales ss ui app))
            (read_credentials (app(''llm_provider'' \<mapsto> active_provider (llm_panel locales ss ui app)))
               (active_provider (llm_panel locales ss ui app))))"
  by (simp add: llm_panel_def Let_def split: prod.split)

lemma shown_tips_llm_panel:
  "shown_tips (llm_panel locales ss ui app) =
     snd (provider_defaults (app(''llm_provider'' \<mapsto> active_provider (llm_panel locales ss ui app)))
            (active_provider (llm_panel locales ss ui app))
            (read_credentials (app(''llm_provider'' \<mapsto> active_provider (llm_panel locales ss ui app)))
               (active_provider (llm_panel locales ss ui app))))"
  by (simp add: llm_panel_def Let_def split: prod.split)

lemma provider_defaults_ollama:
  "provider_defaults app ''ollama'' c =
     (c\<lparr>llm_model_name := (if llm_model_name c = [] then ''qwen:7b'' else llm_model_name c),
        llm_base_url := (if llm_base_url c = [] then ''http://localhost:11434/v1'' else llm_base_url c)\<rparr>,
      OllamaTips)"
  by (simp add: provider_defaults_def ollama_block_def openai_block_def azure_block_def
      moonshot_block_def Let_def)

lemma provider_defaults_openai:
  "provider_defaults app ''openai'' c =
     (c\<lparr>llm_api_key := (if llm_api_key c = [] then dict_get app ''openai_api_key'' '''' else llm_api_key c)\<rparr>,
      OpenAITips)"
  by (simp add: provider_defaults_def ollama_block_def openai_block_def azure_block_def
      moonshot_block_def Let_def)

lemma snd_provider_defaults_azure: "snd (provider_defaults app ''azure'' c) = AzureTips"
  by (simp add: provider_defaults_def ollama_block_def openai_block_def azure_block_def
      moonshot_block_def Let_def)

lemma snd_provider_defaults_moonshot: "snd (provider_defaults app ''moonshot'' c) = MoonshotTips"
  by (simp add: provider_defaults_def ollama_block_def openai_block_def azure_block_def
      moonshot_block_def Let_def)

lemma provider_defaults_other:
  "p \<notin> {''ollama'', ''openai'', ''azure'', ''moonshot''} \<Longrightarrow> provider_defaults app p c = (c, NoTips)"
  by (simp add: provider_defaults_def ollama_block_def openai_block_def azure_block_def
      moonshot_block_def)

subsection \<open>Configuration validation\<close>

lemma keyword_arguments_str:
  "\<forall>k \<in> fst ` set d. is_str k \<Longrightarrow>
     \<exists>kw. keyword_arguments d = Inr kw \<and> (\<forall>s. map_of kw s = map_of d (PyStr s))"
proof (induction d rule: keyword_arguments.induct)
  case 1
  show ?case by simp
next
  case (2 s v items)
  then show ?case by auto
qed simp_all

lemma keyword_arguments_non_str:
  "\<exists>k \<in> fst ` set d. \<not> is_str k \<Longrightarrow> keyword_arguments d = Inl TypeError"
  by (induction d rule: keyword_arguments.induct) (auto split: sum.splits)

lemma required_str_cases:
  "required_str d f = Inr s \<longleftrightarrow> d f = Some (PyStr s)"
  by (auto simp: required_str_def split: option.splits py_value.splits)

lemma ConfigModel_init_only_validation_error:
  "ConfigModel_init d = Inl e \<Longrightarrow> \<exists>es. e = ValidationError es"
  by (auto simp: ConfigModel_init_def Let_def split: sum.splits)

lemma optional_str_value:
  "d f = None \<or> d f = Some PyNone \<or> (\<exists>t. d f = Some (PyStr t)) \<Longrightarrow>
     optional_str d f = Inr (case d f of Some (PyStr t) \<Rightarrow> Some t | _ \<Rightarrow> None)"
  by (auto simp: optional_str_def)

lemma ConfigModel_init_well_typed:
  assumes "d ''api_key'' = Some (PyStr s)"
    and "\<forall>f \<in> {''secret_key'', ''base_url'', ''model_name'', ''account_id''}.
           d f = None \<or> d f = Some PyNone \<or> (\<exists>t. d f = Some (PyStr t))"
  shows "ConfigModel_init d =
     Inr \<lparr>api_key = s,
          secret_key = (case d ''secret_key'' of Some (PyStr t) \<Rightarrow> Some t | _ \<Rightarrow> None),
          base_url = (case d ''base_url'' of Some (PyStr t) \<Rightarrow> Some t | _ \<Rightarrow> None),
          model_name = (case d ''model_name'' of Some (PyStr t) \<Rightarrow> Some t | _ \<Rightarrow> None),
          account_id = (case d ''account_id'' of Some (PyStr t) \<Rightarrow> Some t | _ \<Rightarrow> None)\<rparr>"
proof -
  have a: "required_str d ''api_key'' = Inr s"
    using assms(1) by (simp add: required_str_cases)
  have o: "optional_str d f = Inr (case d f of Some (PyStr t) \<Rightarrow> Some t | _ \<Rightarrow> None)"
    if "f \<in> {''secret_key'', ''base_url'', ''model_name'', ''account_id''}" for f
    by (rule optional_str_value) (rule bspec [OF assms(2) that])
  show ?thesis
    by (simp add: ConfigModel_init_def Let_def a o)
qed

lemma ConfigModel_init_missing:
  "d ''api_key'' = None \<Longrightarrow> \<exists>es. ConfigModel_init d = Inl (ValidationError (Missing ''api_key'' # es))"
  by (auto simp: ConfigModel_init_def Let_def required_str_def errors_of_def split: sum.splits)

lemma ConfigModel_init_null:
  "d ''api_key'' = Some PyNone \<Longrightarrow>
     \<exists>es. ConfigModel_init d = Inl (ValidationError (StringType ''api_key'' # es))"
  by (auto simp: ConfigModel_init_def Let_def required_str_def errors_of_def split: sum.splits)

lemma validate_config_kwargs:
  "keyword_arguments d = Inr kw \<Longrightarrow>
     validate_config d =
       (case ConfigModel_init (map_of kw) of
          Inr config_model \<Rightarrow> Inr (Some config_model, [])
        | Inl (ValidationError es) \<Rightarrow>
            Inr (None, [LoggerError ''Configuration validation error: '' (ValidationError es)])
        | Inl e \<Rightarrow> Inl e)"
  by (simp add: validate_config_def)

lemma validate_config_str_keys:
  assumes "\<forall>k \<in> fst ` set d. is_str k"
  shows "\<exists>r. validate_config d = Inr r"
proof -
  obtain kw where kw: "keyword_arguments d = Inr kw"
    using keyword_arguments_str [OF assms] by blast
  show ?thesis
  proof (cases "ConfigModel_init (map_of kw)")
    case (Inl e)
    then obtain es where "e = ValidationError es"
      using ConfigModel_init_only_validation_error by blast
    with Inl show ?thesis
      by (simp add: validate_config_kwargs [OF kw])
  next
    case (Inr m)
    then show ?thesis
      by (simp add: validate_config_kwargs [OF kw])
  qed
qed

lemma validate_config_model:
  assumes keys: "\<forall>k \<in> fst ` set d. is_str k"
    and a: "map_of d (PyStr ''api_key'') = Some (PyStr s)"
    and o: "\<forall>f \<in> {''secret_key'', ''base_url'', ''model_name'', ''account_id''}.
              map_of d (PyStr f) = None \<or> map_of d (PyStr f) = Some PyNone
              \<or> (\<exists>t. map_of d (PyStr f) = Some (PyStr t))"
  shows "validate_config d =
            Inr (Some \<lparr>api_key = s,
                   secret_key = (case map_of d (PyStr ''secret_key'') of Some (PyStr t) \<Rightarrow> Some t | _ \<Rightarrow> None),
                   base_url = (case map_of d (PyStr ''base_url'') of Some (PyStr t) \<Rightarrow> Some t | _ \<Rightarrow> None),
                   model_name = (case map_of d (PyStr ''model_name'') of Some (PyStr t) \<Rightarrow> Some t | _ \<Rightarrow> None),
                   account_id = (case map_of d (PyStr ''account_id'') of Some (PyStr t) \<Rightarrow> Some t | _ \<Rightarrow> None)\<rparr>,
                 [])"
proof -
  obtain kw where kw: "keyword_arguments d = Inr kw" and look: "\<And>s. map_of kw s = map_of d (PyStr s)"
    using keyword_arguments_str [OF keys] by blast
  have a': "map_of kw ''api_key'' = Some (PyStr s)"
    by (simp only: look a)
  have o': "\<forall>f \<in> {''secret_key'', ''base_url'', ''model_name'', ''account_id''}.
              map_of kw f = None \<or> map_of kw f = Some PyNone \<or> (\<exists>t. map_of kw f = Some (PyStr t))"
    using o by (simp only: look)
  show ?thesis
    unfolding validate_config_kwargs [OF kw] ConfigModel_init_well_typed [OF a' o']
    by (simp only: look sum.case)
qed

lemma validate_config_missing:
  assumes keys: "\<forall>k \<in> fst ` set d. is_str k" and a: "map_of d (PyStr ''api_key'') = None"
  shows "\<exists>es. validate_config d =
            Inr (None, [LoggerError ''Configuration validation error: ''
                          (ValidationError (Missing ''api_key'' # es))])"
proof -
  obtain kw where kw: "keyword_arguments d = Inr kw" and look: "\<And>s. map_of kw s = map_of d (PyStr s)"
    using keyword_arguments_str [OF keys] by blast
  have "map_of kw ''api_key'' = None"
    by (simp only: look a)
  then obtain es where "ConfigModel_init (map_of kw) = Inl (ValidationError (Missing ''api_key'' # es))"
    using ConfigModel_init_missing by blast
  then show ?thesis
    by (simp add: validate_config_kwargs [OF kw])
qed

lemma validate_config_null:
  assumes keys: "\<forall>k \<in> fst ` set d. is_str k" and a: "map_of d (PyStr ''api_key'') = Some PyNone"
  shows "\<exists>es. validate_config d =
            Inr (None, [LoggerError ''Configuration validation error: ''
                          (ValidationError (StringType ''api_key'' # es))])"
proof -
  obtain kw where kw: "keyword_arguments d = Inr kw" and look: "\<And>s. map_of kw s = map_of d (PyStr s)"
    using keyword_arguments_str [OF keys] by blast
  have "map_of kw ''api_key'' = Some PyNone"
    by (simp only: look a)
  then obtain es where "ConfigModel_init (map_of kw) = Inl (ValidationError (StringType ''api_key'' # es))"
    using ConfigModel_init_null by blast
  then show ?thesis
    by (simp add: validate_config_kwargs [OF kw])
qed

lemma validate_config_model_no_log:
  "validate_config d = Inr (Some m, evs) \<Longrightarrow> evs = []"
  by (auto simp: validate_config_def split: sum.splits py_exception.splits)

text \<open>
  Claim C2, as the code has it. For an input mapping whose keys are all strings,
  \<open>validate_config\<close> passes no exception to its caller: it returns a model, with the
  given field values and nothing logged, when \<open>api_key\<close> is present with a string value
  and each of the four optional fields is absent, \<open>None\<close> or a string; it returns \<open>None\<close>
  and logs a validation error when \<open>api_key\<close> is omitted, and also when \<open>api_key\<close> is
  present but \<open>None\<close>. For a mapping with a key that is not a string the call raises
  \<open>TypeError\<close>, which is not caught. Whenever a model is returned nothing is logged.
\<close>

theorem validate_config_well_typed:
  "((\<forall>k \<in> fst ` set d. is_str k) \<longrightarrow> (\<exists>r. validate_config d = Inr r))
   \<and> ((\<exists>k \<in> fst ` set d. \<not> is_str k) \<longrightarrow> validate_config d = Inl TypeError)
   \<and> ((\<forall>k \<in> fst ` set d. is_str k) \<and> map_of d (PyStr ''api_key'') = Some (PyStr s)
        \<and> (\<forall>f \<in> {''secret_key'', ''base_url'', ''model_name'', ''account_id''}.
              map_of d (PyStr f) = None \<or> map_of d (PyStr f) = Some PyNone
              \<or> (\<exists>t. map_of d (PyStr f) = Some (PyStr t)))
       \<longrightarrow> validate_config d =
            Inr (Some \<lparr>api_key = s,
                   secret_key = (case map_of d (PyStr ''secret_key'') of Some (PyStr t) \<Rightarrow> Some t | _ \<Rightarrow> None),
                   base_url = (case map_of d (PyStr ''base_url'') of Some (PyStr t) \<Rightarrow> Some t | _ \<Rightarrow> None),
                   model_name = (case map_of d (PyStr ''model_name'') of Some (PyStr t) \<Rightarrow> Some t | _ \<Rightarrow> None),
                   account_id = (case map_of d (PyStr ''account_id'') of Some (PyStr t) \<Rightarrow> Some t | _ \<Rightarrow> None)\<rparr>,
                 []))
   \<and> ((\<forall>k \<in> fst ` set d. is_str k) \<and> map_of d (PyStr ''api_key'') = None \<longrightarrow>
         (\<exists>es. validate_config d =
            Inr (None, [LoggerError ''Configuration validation error: ''
                          (ValidationError (Missing ''api_key'' # es))])))
   \<and> ((\<forall>k \<in> fst ` set d. is_str k) \<and> map_of d (PyStr ''api_key'') = Some PyNone \<longrightarrow>
         (\<exists>es. validate_config d =
            Inr (None, [LoggerError ''Configuration validation error: ''
                          (ValidationError (StringType ''api_key'' # es))])))
   \<and> (\<forall>m evs. validate_config d = Inr (Some m, evs) \<longrightarrow> evs = [])"
proof (intro conjI impI allI)
  assume "\<forall>k \<in> fst ` set d. is_str k"
  then show "\<exists>r. validate_config d = Inr r"
    by (rule validate_config_str_keys)
next
  assume "\<exists>k \<in> fst ` set d. \<not> is_str k"
  then have "keyword_arguments d = Inl TypeError"
    by (rule keyword_arguments_non_str)
  then show "validate_config d = Inl TypeError"
    by (simp add: validate_config_def)
next
  assume h: "(\<forall>k \<in> fst ` set d. is_str k) \<and> map_of d (PyStr ''api_key'') = Some (PyStr s)
        \<and> (\<forall>f \<in> {''secret_key'', ''base_url'', ''model_name'', ''account_id''}.
              map_of d (PyStr f) = None \<or> map_of d (PyStr f) = Some PyNone
              \<or> (\<exists>t. map_of d (PyStr f) = Some (PyStr t)))"
  show "validate_config d =
            Inr (Some \<lparr>api_key = s,
                   secret_key = (case map_of d (PyStr ''secret_key'') of Some (PyStr t) \<Rightarrow> Some t | _ \<Rightarrow> None),
                   base_url = (case map_of d (PyStr ''base_url'') of Some (PyStr t) \<Rightarrow> Some t | _ \<Rightarrow> None),
                   model_name = (case map_of d (PyStr ''model_name'') of Some (PyStr t) \<Rightarrow> Some t | _ \<Rightarrow> None),
                   account_id = (case map_of d (PyStr ''account_id'') of Some (PyStr t) \<Rightarrow> Some t | _ \<Rightarrow> None)\<rparr>,
                 [])"
    by (rule validate_config_model [OF conjunct1 [OF h] conjunct1 [OF conjunct2 [OF h]]
          conjunct2 [OF conjunct2 [OF h]]])
next
  assume h: "(\<forall>k \<in> fst ` set d. is_str k) \<and> map_of d (PyStr ''api_key'') = None"
  show "\<exists>es. validate_config d =
            Inr (None, [LoggerError ''Configuration validation error: ''
                          (ValidationError (Missing ''api_key'' # es))])"
    by (rule validate_config_missing [OF conjunct1 [OF h] conjunct2 [OF h]])
next
  assume h: "(\<forall>k \<in> fst ` set d. is_str k) \<and> map_of d (PyStr ''api_key'') = Some PyNone"
  show "\<exists>es. validate_config d =
            Inr (None, [LoggerError ''Configuration validation error: ''
                          (ValidationError (StringType ''api_key'' # es))])"
    by (rule validate_config_null [OF conjunct1 [OF h] conjunct2 [OF h]])
next
  fix m evs
  assume "validate_config d = Inr (Some m, evs)"
  then show "evs = []"
    by (rule validate_config_model_no_log)
qed

theorem validate_config_well_typed_witness:
  "validate_config
     [(PyStr ''api_key'', PyStr ''example_key''), (PyStr ''base_url'', PyStr ''http://example.com''),
      (PyStr ''model_name'', PyNone)]
     = Inr (Some \<lparr>api_key = ''example_key'', secret_key = None,
                   base_url = Some ''http://example.com'', model_name = None, account_id = None\<rparr>, [])
   \<and> (\<exists>es. validate_config [(PyStr ''base_url'', PyStr ''http://example.com'')] =
            Inr (None, [LoggerError ''Configuration validation error: ''
                          (ValidationError (Missing ''api_key'' # es))]))
   \<and> validate_config [(PyStr ''api_key'', PyStr ''example_key''), (PyInt 1, PyStr ''x'')]
       = Inl TypeError"
  using validate_config_well_typed [of
      "[(PyStr ''api_key'', PyStr ''example_key''), (PyStr ''base_url'', PyStr ''http://example.com''),
        (PyStr ''model_name'', PyNone)]" "''example_key''"]
    validate_config_well_typed [of "[(PyStr ''base_url'', PyStr ''http://example.com'')]"]
    validate_config_well_typed [of "[(PyStr ''api_key'', PyStr ''example_key''), (PyInt 1, PyStr ''x'')]"]
  by simp

text \<open>
  The claim fails in both of its unconditional parts. A payload whose \<open>api_key\<close> is
  \<open>None\<close> has the required field present, and the result is \<open>None\<close> with a logged
  error; a payload with the key \<open>1\<close> beside a valid \<open>api_key\<close> makes the call raise
  \<open>TypeError\<close> to the caller.
\<close>

theorem validate_config_null_or_raises:
  "map_of [(PyStr ''api_key'', PyNone)] (PyStr ''api_key'') = Some PyNone
   \<and> validate_config [(PyStr ''api_key'', PyNone)] =
       Inr (None, [LoggerError ''Configuration validation error: ''
                     (ValidationError [StringType ''api_key''])])
   \<and> map_of [(PyStr ''api_key'', PyStr ''example_key''), (PyInt 1, PyStr ''x'')] (PyStr ''api_key'')
       = Some (PyStr ''example_key'')
   \<and> validate_config [(PyStr ''api_key'', PyStr ''example_key''), (PyInt 1, PyStr ''x'')]
       = Inl TypeError"
  by (simp add: validate_config_def ConfigModel_init_def required_str_def optional_str_def
      errors_of_def)

lemma provider_loop_match:
  "distinct (map (lower \<circ> snd) ps) \<Longrightarrow> (i, p) \<in> set ps \<Longrightarrow> provider_loop (lower p) ps idx = i"
  by (induction ps) (auto simp: rev_image_eqI)

lemma distinct_lower_providers: "distinct (map lower llm_providers)"
  unfolding lower_providers by simp

lemma saved_llm_provider_index_match:
  assumes "i < length llm_providers"
    and "lower (dict_get app ''llm_provider'' ''OpenAI'') = lower (llm_providers ! i)"
  shows "saved_llm_provider_index app = i"
proof -
  have "distinct (map (lower \<circ> snd) (enumerate 0 llm_providers))"
    using distinct_lower_providers by (simp flip: map_map add: map_snd_enumerate)
  moreover have "(i, llm_providers ! i) \<in> set (enumerate 0 llm_providers)"
    using assms(1) by (simp add: in_set_enumerate_eq)
  ultimately show ?thesis
    unfolding saved_llm_provider_index_def assms(2) by (rule provider_loop_match)
qed

lemma active_provider_saved:
  assumes "provider_choice ui = None" and "i < length llm_providers"
    and "lower (dict_get app ''llm_provider'' ''OpenAI'') = lower (llm_providers ! i)"
  shows "active_provider (llm_panel locales ss ui app) = lower (llm_providers ! i)"
  by (simp add: active_provider_llm_panel saved_llm_provider_index_match [OF assms(2,3)]
      selectbox_def assms(1))

text \<open>
  Claim C6, as the code has it. Whenever \<open>ollama\<close> is the selected provider, an empty
  saved model name is shown as \<open>qwen:7b\<close> and an empty saved base URL as
  \<open>http://localhost:11434/v1\<close>, while non-empty saved values are shown as saved.
  Whenever one of \<open>ollama\<close>, \<open>openai\<close>, \<open>azure\<close> and \<open>moonshot\<close> is the selected provider,
  that provider's own help text is displayed. For \<open>openai\<close> the base URL and model name
  fields show the saved values, empty ones included. A provider is selected by the
  user's choice in the select box or, when the user makes none, through the saved
  \<open>llm_provider\<close>.
\<close>

theorem special_provider_defaults:
  "(active_provider (llm_panel locales ss ui app) = ''ollama'' \<longrightarrow>
      llm_model_name (form_values (llm_panel locales ss ui app)) =
           (if dict_get app ''ollama_model_name'' '''' = [] then ''qwen:7b''
            else dict_get app ''ollama_model_name'' '''')
      \<and> llm_base_url (form_values (llm_panel locales ss ui app)) =
           (if dict_get app ''ollama_base_url'' '''' = [] then ''http://localhost:11434/v1''
            else dict_get app ''ollama_base_url'' '''')
      \<and> shown_tips (llm_panel locales ss ui app) = OllamaTips
      \<and> StMarkdown OllamaTips \<in> set (events (llm_panel locales ss ui app)))
   \<and> (active_provider (llm_panel locales ss ui app) = ''openai'' \<longrightarrow>
      llm_model_name (form_values (llm_panel locales ss ui app)) = dict_get app ''openai_model_name'' ''''
      \<and> llm_base_url (form_values (llm_panel locales ss ui app)) = dict_get app ''openai_base_url'' ''''
      \<and> shown_tips (llm_panel locales ss ui app) = OpenAITips
      \<and> StMarkdown OpenAITips \<in> set (events (llm_panel locales ss ui app)))
   \<and> (active_provider (llm_panel locales ss ui app) = ''azure'' \<longrightarrow>
      shown_tips (llm_panel locales ss ui app) = AzureTips
      \<and> StMarkdown AzureTips \<in> set (events (llm_panel locales ss ui app)))
   \<and> (active_provider (llm_panel locales ss ui app) = ''moonshot'' \<longrightarrow>
      shown_tips (llm_panel locales ss ui app) = MoonshotTips
      \<and> StMarkdown MoonshotTips \<in> set (events (llm_panel locales ss ui app)))
   \<and> (i < length llm_providers \<and> provider_choice ui = Some i \<longrightarrow>
      active_provider (llm_panel locales ss ui app) = lower (llm_providers ! i))
   \<and> (i < length llm_providers \<and> provider_choice ui = None
        \<and> lower (dict_get app ''llm_provider'' ''OpenAI'') = lower (llm_providers ! i) \<longrightarrow>
      active_provider (llm_panel locales ss ui app) = lower (llm_providers ! i))
   \<and> lower (llm_providers ! 6) = ''ollama'' \<and> lower (llm_providers ! 0) = ''openai''
   \<and> lower (llm_providers ! 2) = ''azure'' \<and> lower (llm_providers ! 1) = ''moonshot''"
proof -
  let ?r = "llm_panel locales ss ui app"
  have names: "lower (llm_providers ! 6) = ''ollama''" "lower (llm_providers ! 0) = ''openai''"
    "lower (llm_providers ! 2) = ''azure''" "lower (llm_providers ! 1) = ''moonshot''"
    using lower_providers by (simp_all add: length_providers flip: nth_map)
  have chosen: "active_provider ?r = lower (llm_providers ! i)"
    if "i < length llm_providers \<and> provider_choice ui = Some i"
    using that by (simp add: active_provider_llm_panel selectbox_def)
  have saved: "active_provider ?r = lower (llm_providers ! i)"
    if "i < length llm_providers \<and> provider_choice ui = None
        \<and> lower (dict_get app ''llm_provider'' ''OpenAI'') = lower (llm_providers ! i)"
    using that active_provider_saved by blast
  have fields: "active_provider ?r = ''ollama'' \<longrightarrow>
      llm_model_name (form_values ?r) =
           (if dict_get app ''ollama_model_name'' '''' = [] then ''qwen:7b''
            else dict_get app ''ollama_model_name'' '''')
      \<and> llm_base_url (form_values ?r) =
           (if dict_get app ''ollama_base_url'' '''' = [] then ''http://localhost:11434/v1''
            else dict_get app ''ollama_base_url'' '''')"
    "active_provider ?r = ''openai'' \<longrightarrow>
      llm_model_name (form_values ?r) = dict_get app ''openai_model_name'' ''''
      \<and> llm_base_url (form_values ?r) = dict_get app ''openai_base_url'' ''''"
    by (auto simp: form_values_llm_panel provider_defaults_ollama provider_defaults_openai
        read_credentials_def provider_key_def dict_get_def)
  have tips: "active_provider ?r = ''ollama'' \<longrightarrow> shown_tips ?r = OllamaTips"
    "active_provider ?r = ''openai'' \<longrightarrow> shown_tips ?r = OpenAITips"
    "active_provider ?r = ''azure'' \<longrightarrow> shown_tips ?r = AzureTips"
    "active_provider ?r = ''moonshot'' \<longrightarrow> shown_tips ?r = MoonshotTips"
    by (simp_all add: shown_tips_llm_panel provider_defaults_ollama provider_defaults_openai
        snd_provider_defaults_azure snd_provider_defaults_moonshot)
  have shown: "t \<noteq> NoTips \<Longrightarrow> shown_tips ?r = t \<Longrightarrow> StMarkdown t \<in> set (events ?r)" for t
    by (simp add: events_llm_panel)
  show ?thesis
    using fields tips shown [of OllamaTips] shown [of OpenAITips] shown [of AzureTips]
      shown [of MoonshotTips] chosen saved names
    by simp
qed

theorem special_provider_defaults_witness:
  "llm_model_name (form_values (llm_panel Map.empty Map.empty untouched
      [''llm_provider'' \<mapsto> ''Ollama'', ''ollama_base_url'' \<mapsto> ''http://gpu:11434/v1''])) = ''qwen:7b''
   \<and> llm_base_url (form_values (llm_panel Map.empty Map.empty untouched
      [''llm_provider'' \<mapsto> ''Ollama'', ''ollama_base_url'' \<mapsto> ''http://gpu:11434/v1'']))
       = ''http://gpu:11434/v1''
   \<and> StMarkdown OllamaTips \<in> set (events (llm_panel Map.empty Map.empty untouched
      [''llm_provider'' \<mapsto> ''Ollama'', ''ollama_base_url'' \<mapsto> ''http://gpu:11434/v1'']))"
proof -
  have low: "lower ''Ollama'' = ''ollama''"
    by code_simp
  show ?thesis
    using special_provider_defaults [where locales = Map.empty and ss = Map.empty
        and ui = untouched and i = 6
        and app = "[''llm_provider'' \<mapsto> ''Ollama'', ''ollama_base_url'' \<mapsto> ''http://gpu:11434/v1'']"]
    by (simp add: low length_providers untouched_def dict_get_def)
qed

text \<open>
  With \<open>openai\<close> selected and nothing saved, the base URL and model name fields are not
  pre-populated: they are empty, as they are for a provider without a special case.
\<close>

theorem openai_fields_not_prepopulated:
  "active_provider (llm_panel Map.empty Map.empty (untouched\<lparr>provider_choice := Some 0\<rparr>) Map.empty)
     = ''openai''
   \<and> llm_base_url (form_values
        (llm_panel Map.empty Map.empty (untouched\<lparr>provider_choice := Some 0\<rparr>) Map.empty)) = []
   \<and> llm_model_name (form_values
        (llm_panel Map.empty Map.empty (untouched\<lparr>provider_choice := Some 0\<rparr>) Map.empty)) = []
   \<and> form_values (llm_panel Map.empty Map.empty (untouched\<lparr>provider_choice := Some 0\<rparr>) Map.empty)
     = form_values (llm_panel Map.empty Map.empty (untouched\<lparr>provider_choice := Some 3\<rparr>) Map.empty)"
proof -
  let ?ui = "untouched\<lparr>provider_choice := Some 0\<rparr>" and ?ui' = "untouched\<lparr>provider_choice := Some 3\<rparr>"
  have "active_provider (llm_panel Map.empty Map.empty ?ui Map.empty) = ''openai''"
    using active_provider_choice [of ?ui 0 Map.empty Map.empty Map.empty]
    by (simp add: lower_providers)
  moreover have "active_provider (llm_panel Map.empty Map.empty ?ui' Map.empty) = ''qwen''"
    using active_provider_choice [of ?ui' 3 Map.empty Map.empty Map.empty]
    by (simp add: lower_providers)
  ultimately show ?thesis
    by (simp add: form_values_llm_panel provider_defaults_openai provider_defaults_other
        read_credentials_def provider_key_def dict_get_def)
qed

end
